theory Spec2Isabelle
  imports Main
begin

section \<open>The local daemon bootstrap (app/scripts/Daemon/Bootstrap.js)\<close>

text \<open>
  The bootstrapper is a JavaScript object whose methods mutate its fields and talk to
  the host: the \<open>os\<close> and \<open>fs\<close> modules, \<open>child_process\<close>, the window, Angular's
  \<open>$q\<close>, \<open>$timeout\<close> and \<open>$rootScope\<close>, timers and the settings collection. The
  embedding passes the object as a record, keeps the host as a record of what its calls
  answer, and appends every call that leaves the object to a trace, in program order.
  Code that the runtime calls later (timer callbacks, stream and window listeners, the
  callbacks handed to the settings collection) is a function of the model that an event
  runs.
\<close>

subsection \<open>Messages, documents, the host\<close>

text \<open>
  \<open>App.Global.Message(result, code, message)\<close>: the source reads the fields
  \<open>result\<close> and \<open>message\<close>; the middle argument is the numeric code.
\<close>

record message =
  result :: bool
  code :: int
  message :: string

definition Message :: "bool \<Rightarrow> int \<Rightarrow> string \<Rightarrow> message" where
  "Message r c m = \<lparr>result = r, code = c, message = m\<rparr>"

text \<open>A document of the settings collection: \<open>{_id, type, pid}\<close>.\<close>

record doc =
  doc_id :: nat
  doc_type :: string
  pid :: nat

text \<open>
  When the settings collection runs the callback it is given is not fixed by the two
  source files: \<open>Immediate\<close> runs it inside the call, \<open>Deferred\<close> queues the request
  and runs its callback on a later turn of the event loop, requests being served in
  the order they were made.
\<close>

datatype dispatch = Immediate | Deferred

record host =
  platform :: string         \<comment> \<open>\<open>os.platform()\<close>\<close>
  arch :: string             \<comment> \<open>\<open>os.arch()\<close>\<close>
  files :: "string list"     \<comment> \<open>the paths for which \<open>fs.existsSync\<close> is true\<close>
  running :: "nat list"      \<comment> \<open>the pids \<open>process.kill\<close> can signal; it throws on any other\<close>
  child_pid :: nat           \<comment> \<open>the pid of the process \<open>childProcess.spawn\<close> starts\<close>
  callbacks :: dispatch

subsection \<open>Requests, effects, the object\<close>

text \<open>
  The two callbacks given to \<open>findOne\<close>; the flag says whether the enclosing method
  was itself called with a callback function.
\<close>

datatype continuation = KillExistingPidFound bool | SaveDaemonPidFound bool

datatype request =
    FindOne string continuation      \<comment> \<open>\<open>findOne({type: t}, callback)\<close>\<close>
  | Insert string nat bool           \<comment> \<open>\<open>insert({type: t, pid: p}, function)\<close>\<close>
  | Update nat doc bool              \<comment> \<open>\<open>update({_id: i}, {$set: doc}, function)\<close>\<close>
  | Remove string                    \<comment> \<open>\<open>remove({type: t}, {})\<close>\<close>

datatype logged = Text string | Msg message | Error nat

datatype effect =
    ConsoleLog logged
  | ExistsSync "string option"
  | Exec string
  | ProcessKill nat
  | Spawn "string option" "string list"
  | DaemonKill string
  | WindowClose bool
  | Reject message
  | Resolve message
  | Broadcast string "message option"
  | Emit string
  | DbCall request
  | SetTimeout nat
  | SetInterval nat
  | Callback "bool option"           \<comment> \<open>the optional \<open>callback\<close> called, with its argument if any\<close>
  | Uncaught string

datatype deferred = Pending | Resolved message | Rejected message

datatype timer_cb = DaemonReady | BlockNotification

record timer =
  remaining :: nat
  repeat :: "nat option"
  cb :: timer_cb

record bootstrap =
  debugEnabled :: bool
  os :: host
  daemon :: "nat option"             \<comment> \<open>the child process, known by its pid; \<open>None\<close> is \<open>null\<close>\<close>
  deferred :: deferred
  daemonFilePath :: "string option"  \<comment> \<open>\<open>None\<close> is \<open>null\<close>\<close>
  dbSettings :: "doc list"
  db_queue :: "request list"
  timers :: "timer list"
  on_stdout_data :: bool
  on_stderr_error :: bool
  on_win_close :: bool
  on_daemon_close :: bool
  kill_callbacks :: nat
  trace :: "effect list"

definition daemonMap :: "(string \<times> (string \<times> string) list) list" where
  "daemonMap =
    [(''linux'',
        [(''x32'', ''daemons/reddcoind-linux32''),
         (''x64'', ''daemons/reddcoind-linux64''),
         (''default'', ''daemons/reddcoind-linux32'')]),
     (''win32'',
        [(''x32'', ''daemons/reddcoind-win32''),
         (''default'', ''daemons/reddcoind-win32'')]),
     (''darwin'',
        [(''x32'', ''daemons/reddcoind-mac32''),
         (''x64'', ''daemons/reddcoind-mac32''),
         (''default'', ''daemons/reddcoind-mac-32'')])]"

text \<open>
  The constructor. The settings collection is persistent, so its documents are an
  argument. Identifiers are looked up among the own keys of \<open>daemonMap\<close> and of its
  tables: \<open>os.platform()\<close> and \<open>os.arch()\<close> never answer the name of a property of
  \<open>Object.prototype\<close>.
\<close>

definition Bootstrap :: "host \<Rightarrow> doc list \<Rightarrow> bootstrap" where
  "Bootstrap h docs =
    \<lparr>debugEnabled = True, os = h, daemon = None, deferred = Pending,
     daemonFilePath = None, dbSettings = docs, db_queue = [], timers = [],
     on_stdout_data = False, on_stderr_error = False, on_win_close = False,
     on_daemon_close = False, kill_callbacks = 0, trace = []\<rparr>"

subsection \<open>Host calls\<close>

definition emit_effect :: "effect \<Rightarrow> bootstrap \<Rightarrow> bootstrap" where
  "emit_effect e st = st\<lparr>trace := trace st @ [e]\<rparr>"

definition debug :: "logged \<Rightarrow> bootstrap \<Rightarrow> bootstrap" where
  "debug d st = (if debugEnabled st then emit_effect (ConsoleLog d) st else st)"

text \<open>\<open>$q\<close>: a deferred settles once; a later \<open>resolve\<close> or \<open>reject\<close> changes nothing.\<close>

definition reject :: "message \<Rightarrow> bootstrap \<Rightarrow> bootstrap" where
  "reject m st =
     emit_effect (Reject m)
       (st\<lparr>deferred := (if deferred st = Pending then Rejected m else deferred st)\<rparr>)"

definition resolve :: "message \<Rightarrow> bootstrap \<Rightarrow> bootstrap" where
  "resolve m st =
     emit_effect (Resolve m)
       (st\<lparr>deferred := (if deferred st = Pending then Resolved m else deferred st)\<rparr>)"

definition existsSync :: "string option \<Rightarrow> bootstrap \<Rightarrow> bool" where
  "existsSync p st = (case p of None \<Rightarrow> False | Some q \<Rightarrow> q \<in> set (files (os st)))"

definition path_text :: "string option \<Rightarrow> string" where
  "path_text p = (case p of None \<Rightarrow> ''null'' | Some q \<Rightarrow> q)"

definition set_timer :: "nat \<Rightarrow> nat option \<Rightarrow> timer_cb \<Rightarrow> bootstrap \<Rightarrow> bootstrap" where
  "set_timer d r c st = st\<lparr>timers := timers st @ [\<lparr>remaining = d, repeat = r, cb = c\<rparr>]\<rparr>"

subsection \<open>The settings collection\<close>

definition find_first :: "string \<Rightarrow> doc list \<Rightarrow> doc option" where
  "find_first t docs = List.find (\<lambda>d. doc_type d = t) docs"

definition fresh_id :: "doc list \<Rightarrow> nat" where
  "fresh_id docs = Suc (fold max (map doc_id docs) 0)"

fun remove_first :: "string \<Rightarrow> doc list \<Rightarrow> doc list" where
  "remove_first t [] = []"
| "remove_first t (d # ds) = (if doc_type d = t then ds else d # remove_first t ds)"

fun update_first :: "nat \<Rightarrow> doc \<Rightarrow> doc list \<Rightarrow> doc list" where
  "update_first i new [] = []"
| "update_first i new (d # ds) =
     (if doc_id d = i then new\<lparr>doc_id := i\<rparr> # ds else d # update_first i new ds)"

definition optional_callback :: "bool \<Rightarrow> effect \<Rightarrow> bootstrap \<Rightarrow> bootstrap" where
  \<comment> \<open>\<open>typeof callback === 'function' && callback(...)\<close>\<close>
  "optional_callback given e st = (if given then emit_effect e st else st)"

text \<open>Serving a write: the collection changes, then the function given with it runs.\<close>

fun serve_write :: "request \<Rightarrow> bootstrap \<Rightarrow> bootstrap" where
  "serve_write (Insert t p given) st =
     optional_callback given (Callback None)
       (st\<lparr>dbSettings := dbSettings st @
             [\<lparr>doc_id = fresh_id (dbSettings st), doc_type = t, pid = p\<rparr>]\<rparr>)"
| "serve_write (Update i new given) st =
     optional_callback given (Callback None)
       (st\<lparr>dbSettings := update_first i new (dbSettings st)\<rparr>)"
| "serve_write (Remove t) st = st\<lparr>dbSettings := remove_first t (dbSettings st)\<rparr>"
| "serve_write (FindOne t k) st = st"

definition submit_write :: "request \<Rightarrow> bootstrap \<Rightarrow> bootstrap" where
  "submit_write r st =
     (let st' = emit_effect (DbCall r) st in
      case callbacks (os st) of
        Immediate \<Rightarrow> serve_write r st'
      | Deferred \<Rightarrow> st'\<lparr>db_queue := db_queue st' @ [r]\<rparr>)"

subsection \<open>The methods\<close>

definition hasValidDaemon :: "bootstrap \<Rightarrow> bool" where
  "hasValidDaemon st = (map_of daemonMap (platform (os st)) \<noteq> None)"

definition initializeFilePath :: "bootstrap \<Rightarrow> bootstrap" where
  "initializeFilePath st =
     (let osArch = arch (os st); osPlatform = platform (os st) in
      case map_of daemonMap osPlatform of
        None \<Rightarrow> st
      | Some table \<Rightarrow>
          (case map_of table osArch of
             None \<Rightarrow> st\<lparr>daemonFilePath := map_of table ''default''\<rparr>
           | Some p \<Rightarrow> st\<lparr>daemonFilePath := Some p\<rparr>))"

definition isWindows :: "bootstrap \<Rightarrow> bool" where
  "isWindows st = (platform (os st) = ''win32'')"

definition runPreChecks :: "bootstrap \<Rightarrow> message \<times> bootstrap" where
  "runPreChecks st =
     (if \<not> hasValidDaemon st then
        (Message False 1
           ''This operating system does not support running the Reddcoin daemon.'', st)
      else
        let st1 = initializeFilePath st;
            st2 = emit_effect (ExistsSync (daemonFilePath st1)) st1
        in if \<not> existsSync (daemonFilePath st1) st1 then
             (Message False 2
                (''Cannot find the daemon for this operating system: '' @
                   platform (os st) @ '' '' @ arch (os st)), st2)
           else (Message True 0 ''Pre-checks complete'', st2))"

definition runOsSpecificTasks :: "bootstrap \<Rightarrow> bootstrap" where
  "runOsSpecificTasks st =
     (if \<not> isWindows st
      then emit_effect (Exec (''chmod 777 '' @ path_text (daemonFilePath st))) st
      else st)"

text \<open>The callback \<open>killExistingPid\<close> gives to \<open>findOne\<close>.\<close>

definition killExistingPid_found :: "bool \<Rightarrow> doc option \<Rightarrow> bootstrap \<Rightarrow> bootstrap" where
  "killExistingPid_found given found st =
     (case found of
        None \<Rightarrow> st
      | Some d \<Rightarrow>
          let st1 = emit_effect (ProcessKill (pid d)) st in
          if pid d \<in> set (running (os st)) then
            optional_callback given (Callback (Some True)) (submit_write (Remove ''daemon'') st1)
          else
            optional_callback given (Callback (Some False)) (debug (Error (pid d)) st1))"

text \<open>
  The callback \<open>saveDaemonPid\<close> gives to \<open>findOne\<close>. Reading \<open>self.daemon.pid\<close>
  while \<open>daemon\<close> is \<open>null\<close> throws inside the callback.
\<close>

definition saveDaemonPid_found :: "bool \<Rightarrow> doc option \<Rightarrow> bootstrap \<Rightarrow> bootstrap" where
  "saveDaemonPid_found given found st =
     (case daemon st of
        None \<Rightarrow> emit_effect (Uncaught ''TypeError'') st
      | Some p \<Rightarrow>
          (case found of
             None \<Rightarrow> submit_write (Insert ''daemon'' p given) st
           | Some d \<Rightarrow> submit_write (Update (doc_id d) (d\<lparr>pid := p\<rparr>) given) st))"

fun serve :: "request \<Rightarrow> bootstrap \<Rightarrow> bootstrap" where
  "serve (FindOne t (KillExistingPidFound given)) st =
     killExistingPid_found given (find_first t (dbSettings st)) st"
| "serve (FindOne t (SaveDaemonPidFound given)) st =
     saveDaemonPid_found given (find_first t (dbSettings st)) st"
| "serve r st = serve_write r st"

definition findOne :: "string \<Rightarrow> continuation \<Rightarrow> bootstrap \<Rightarrow> bootstrap" where
  "findOne t k st =
     (let st' = emit_effect (DbCall (FindOne t k)) st in
      case callbacks (os st) of
        Immediate \<Rightarrow> serve (FindOne t k) st'
      | Deferred \<Rightarrow> st'\<lparr>db_queue := db_queue st' @ [FindOne t k]\<rparr>)"

definition saveDaemonPid :: "bool \<Rightarrow> bootstrap \<Rightarrow> bootstrap" where
  "saveDaemonPid given st = findOne ''daemon'' (SaveDaemonPidFound given) st"

definition killExistingPid :: "bool \<Rightarrow> bootstrap \<Rightarrow> bootstrap" where
  "killExistingPid given st = findOne ''daemon'' (KillExistingPidFound given) st"

text \<open>\<open>spawn\<close> is taken to start the process, with the pid the host gives.\<close>

definition daemon_args :: "string list" where
  "daemon_args =
     [''-alertnotify=echo \"ALERT:%s\"'', ''-walletnotify=echo \"WALLET:%s\"'']"

definition spawnDaemon :: "bootstrap \<Rightarrow> bootstrap" where
  "spawnDaemon st =
     saveDaemonPid False
       ((emit_effect (Spawn (daemonFilePath st) daemon_args) st)
          \<lparr>daemon := Some (child_pid (os st))\<rparr>)"

text \<open>
  Reading \<open>this.daemon.stdout\<close> while \<open>daemon\<close> is \<open>null\<close> throws; \<open>startLocal\<close>
  calls the method right after \<open>spawnDaemon\<close>, which has set the field.
\<close>

definition setupDaemonListeners :: "bootstrap \<Rightarrow> bootstrap" where
  "setupDaemonListeners st =
     (case daemon st of
        None \<Rightarrow> emit_effect (Uncaught ''TypeError'') st
      | Some p \<Rightarrow>
          st\<lparr>on_stdout_data := True, on_stderr_error := True,
             on_win_close := True, on_daemon_close := True\<rparr>)"

definition startLocal :: "bootstrap \<Rightarrow> bootstrap" where
  "startLocal st =
     (let (msg, st1) = runPreChecks st in
      if \<not> result msg then
        emit_effect (Broadcast ''daemon.bootstrapped'' (Some msg))
          (reject msg (debug (Text (message msg)) st1))
      else
        let st2 = runOsSpecificTasks st1;
            st3 = killExistingPid False st2;
            st4 = spawnDaemon st3;
            st5 = setupDaemonListeners st4;
            st6 = set_timer 1500 None DaemonReady (emit_effect (SetTimeout 1500) st5);
            st7 = set_timer (15 * 1000) (Some (15 * 1000)) BlockNotification
                    (emit_effect (SetInterval (15 * 1000)) st6)
        in st7)"

definition getPromise :: "bootstrap \<Rightarrow> deferred" where
  "getPromise st = deferred st"

subsection \<open>What the runtime calls later\<close>

fun run_timer :: "timer_cb \<Rightarrow> bootstrap \<Rightarrow> bootstrap" where
  "run_timer DaemonReady st =
     (let m = Message True 0 ''Daemon Ready'' in
      debug (Msg m)
        (resolve m (emit_effect (Broadcast ''daemon.bootstrapped'' (Some m)) st)))"
| "run_timer BlockNotification st =
     emit_effect (Broadcast ''daemon.notifications.block'' None) st"

text \<open>
  One millisecond passes: every timer counts down, those that reach zero fire in the
  order they were set, a one-shot timer is dropped and a repeating one starts again.
\<close>

definition count_down :: "timer \<Rightarrow> timer" where
  "count_down t = t\<lparr>remaining := remaining t - 1\<rparr>"

definition rearm :: "timer list \<Rightarrow> timer list" where
  "rearm ts =
     concat (map (\<lambda>t. if remaining t \<noteq> 0 then [t]
                      else (case repeat t of None \<Rightarrow> []
                            | Some p \<Rightarrow> [t\<lparr>remaining := p\<rparr>])) ts)"

definition tick :: "bootstrap \<Rightarrow> bootstrap" where
  "tick st =
     (let ts = map count_down (timers st);
          fired = filter (\<lambda>t. remaining t = 0) ts
      in fold (\<lambda>t. run_timer (cb t)) fired (st\<lparr>timers := rearm ts\<rparr>))"

datatype event =
    Tick           \<comment> \<open>one millisecond passes\<close>
  | DbTurn         \<comment> \<open>the settings collection serves its oldest queued request\<close>
  | StdoutData     \<comment> \<open>\<open>'data'\<close> on the daemon's stdout\<close>
  | StderrError    \<comment> \<open>\<open>'error'\<close> on the daemon's stderr\<close>
  | WinClose       \<comment> \<open>\<open>'close'\<close> on the window\<close>
  | DaemonClose    \<comment> \<open>\<open>'close'\<close> on the child process\<close>
  | DaemonKilled   \<comment> \<open>the runtime calls the function given to \<open>daemon.kill\<close>\<close>

fun step :: "event \<Rightarrow> bootstrap \<Rightarrow> bootstrap" where
  "step Tick st = tick st"
| "step DbTurn st =
     (case db_queue st of
        [] \<Rightarrow> st
      | r # rs \<Rightarrow> serve r (st\<lparr>db_queue := rs\<rparr>))"
| "step StdoutData st =
     (if on_stdout_data st then
        emit_effect (Emit ''daemon.notifications.block'')
          (debug (Text (''Received daemon data from 'stdout'' @ [CHR 0x27])) st)
      else st)"
| "step StderrError st =
     (if on_stderr_error st then debug (Text (''Received daemon error from 'stderr'' @ [CHR 0x27])) st
      else st)"
| "step WinClose st =
     (if on_win_close st then
        emit_effect (WindowClose True)
          ((emit_effect (DaemonKill ''SIGTERM'') st)
             \<lparr>kill_callbacks := Suc (kill_callbacks st)\<rparr>)
      else st)"
| "step DaemonClose st =
     (if on_daemon_close st then debug (Text ''Daemon child process has ended.'') st
      else st)"
| "step DaemonKilled st =
     (if 0 < kill_callbacks st then
        debug (Text ''Daemon killed'') (st\<lparr>kill_callbacks := kill_callbacks st - 1\<rparr>)
      else st)"

definition run :: "event list \<Rightarrow> bootstrap \<Rightarrow> bootstrap" where
  "run evs st = fold step evs st"

subsection \<open>Observations used by the properties\<close>

text \<open>Calls that settle the deferred, and publications of the activity event.\<close>

fun is_settlement :: "effect \<Rightarrow> bool" where
  "is_settlement (Reject m) = True"
| "is_settlement (Resolve m) = True"
| "is_settlement e = False"

fun is_block :: "effect \<Rightarrow> bool" where
  "is_block (Broadcast n m) = (n = ''daemon.notifications.block'')"
| "is_block (Emit n) = (n = ''daemon.notifications.block'')"
| "is_block e = False"

text \<open>The two messages \<open>runPreChecks\<close> fails with, and the one the timer resolves with.\<close>

definition unsupported :: message where
  "unsupported =
     Message False 1 ''This operating system does not support running the Reddcoin daemon.''"

definition not_found :: "host \<Rightarrow> message" where
  "not_found h =
     Message False 2
       (''Cannot find the daemon for this operating system: '' @ platform h @ '' '' @ arch h)"

definition ready :: message where
  "ready = Message True 0 ''Daemon Ready''"

text \<open>Nothing is registered with the runtime: no timer, no listener, no queued request.\<close>

definition idle :: "bootstrap \<Rightarrow> bool" where
  "idle st \<longleftrightarrow>
     timers st = [] \<and> db_queue st = [] \<and> \<not> on_stdout_data st \<and> \<not> on_stderr_error st \<and>
     \<not> on_win_close st \<and> \<not> on_daemon_close st \<and> kill_callbacks st = 0"

text \<open>Concrete hosts and a settings collection holding the record of an earlier run.\<close>

definition example_host :: "string \<Rightarrow> string \<Rightarrow> dispatch \<Rightarrow> nat list \<Rightarrow> host" where
  "example_host p a d live =
     \<lparr>platform = p, arch = a,
      files = [''daemons/reddcoind-linux64'', ''daemons/reddcoind-mac-32''],
      running = live, child_pid = 4321, callbacks = d\<rparr>"

definition stale_record :: "doc list" where
  "stale_record = [\<lparr>doc_id = 7, doc_type = ''daemon'', pid = 1234\<rparr>]"

text \<open>
  The timers \<open>startLocal\<close> sets, \<open>n\<close> milliseconds later: the one-shot timer of 1500
  until it fires, the repeating timer of 15000 with what is left of its current round.
\<close>

definition timers_after :: "nat \<Rightarrow> timer list" where
  "timers_after n =
     (if n < 1500 then [\<lparr>remaining = 1500 - n, repeat = None, cb = DaemonReady\<rparr>] else []) @
     [\<lparr>remaining = 15000 - n mod 15000, repeat = Some 15000, cb = BlockNotification\<rparr>]"

text \<open>
  What holds \<open>n\<close> milliseconds and \<open>k\<close> stdout \<open>data\<close> events after a start that
  passed the pre-checks.
\<close>

definition started :: "nat \<Rightarrow> nat \<Rightarrow> bootstrap \<Rightarrow> bool" where
  "started n k st \<longleftrightarrow>
     timers st = timers_after n \<and> debugEnabled st \<and> on_stdout_data st \<and> on_win_close st \<and>
     deferred st = (if n < 1500 then Pending else Resolved ready) \<and>
     filter is_settlement (trace st) = (if n < 1500 then [] else [Resolve ready]) \<and>
     length (filter is_block (trace st)) = n div 15000 + k"

text \<open>The part of the object that the settings collection and its callbacks never touch.\<close>

definition control ::
  "bootstrap \<Rightarrow> timer list \<times> bool \<times> bool \<times> bool \<times> deferred \<times> effect list \<times> effect list" where
  "control st =
     (timers st, debugEnabled st, on_stdout_data st, on_win_close st, deferred st,
      filter is_settlement (trace st), filter is_block (trace st))"

text \<open>
  A trace in which every \<open>close\<close> of the window comes after a log line of the daemon's
  end (the function given to \<open>daemon.kill\<close>, or the child's \<open>close\<close> listener).
\<close>

fun closes_only_after_exit :: "bool \<Rightarrow> effect list \<Rightarrow> bool" where
  "closes_only_after_exit seen [] = True"
| "closes_only_after_exit seen (WindowClose f # es) = (seen \<and> closes_only_after_exit seen es)"
| "closes_only_after_exit seen (ConsoleLog (Text t) # es) =
     closes_only_after_exit
       (seen \<or> t = ''Daemon killed'' \<or> t = ''Daemon child process has ended.'') es"
| "closes_only_after_exit seen (e # es) = closes_only_after_exit seen es"

section \<open>Properties\<close>

lemmas method_defs =
  startLocal_def runPreChecks_def hasValidDaemon_def initializeFilePath_def isWindows_def
  runOsSpecificTasks_def killExistingPid_def saveDaemonPid_def spawnDaemon_def
  setupDaemonListeners_def findOne_def killExistingPid_found_def saveDaemonPid_found_def
  submit_write_def optional_callback_def emit_effect_def debug_def reject_def resolve_def
  existsSync_def path_text_def set_timer_def find_first_def fresh_id_def Bootstrap_def
  Message_def daemonMap_def run_def example_host_def stale_record_def Let_def

subsection \<open>Pre-flight\<close>

lemma idle_step: "idle st \<Longrightarrow> step e st = st"
  by (cases e) (simp_all add: idle_def tick_def rearm_def)

lemma idle_run: "idle st \<Longrightarrow> run evs st = st"
  unfolding run_def by (induction evs) (simp_all add: idle_step)

lemma supported_default: "map_of daemonMap p = Some t \<Longrightarrow> map_of t ''default'' \<noteq> None"
  by (auto simp: daemonMap_def split: if_splits)

lemma runPreChecks_unsupported:
  "map_of daemonMap (platform (os st)) = None \<Longrightarrow> runPreChecks st = (unsupported, st)"
  by (simp add: runPreChecks_def hasValidDaemon_def unsupported_def)

lemma initializeFilePath_supported:
  "map_of daemonMap (platform (os st)) = Some table \<Longrightarrow>
   initializeFilePath st =
     st\<lparr>daemonFilePath := (case map_of table (arch (os st)) of
                             Some p \<Rightarrow> Some p | None \<Rightarrow> map_of table ''default'')\<rparr>"
  by (simp add: initializeFilePath_def split: option.splits)

lemma runPreChecks_supported:
  assumes "map_of daemonMap (platform (os st)) = Some table"
    and "(case map_of table (arch (os st)) of Some q \<Rightarrow> Some q | None \<Rightarrow> map_of table ''default'') = Some p"
  shows "runPreChecks st =
     (if p \<in> set (files (os st)) then Message True 0 ''Pre-checks complete'' else not_found (os st),
      st\<lparr>daemonFilePath := Some p, trace := trace st @ [ExistsSync (Some p)]\<rparr>)"
  using assms
  by (simp add: runPreChecks_def hasValidDaemon_def initializeFilePath_supported
        existsSync_def emit_effect_def not_found_def Let_def)

lemma startLocal_rejects:
  "\<not> result m \<Longrightarrow> runPreChecks st = (m, st1) \<Longrightarrow>
   startLocal st =
     st1\<lparr>deferred := (if deferred st1 = Pending then Rejected m else deferred st1),
         trace := trace st1 @
           (if debugEnabled st1 then [ConsoleLog (Text (message m))] else []) @
           [Reject m, Broadcast ''daemon.bootstrapped'' (Some m)]\<rparr>"
  by (simp add: startLocal_def reject_def debug_def emit_effect_def)

lemma startLocal_unsupported:
  assumes "map_of daemonMap (platform h) = None"
  shows "startLocal (Bootstrap h docs) =
    (Bootstrap h docs)
      \<lparr>deferred := Rejected unsupported,
       trace := [ConsoleLog (Text (message unsupported)), Reject unsupported,
                 Broadcast ''daemon.bootstrapped'' (Some unsupported)]\<rparr>"
proof -
  have "runPreChecks (Bootstrap h docs) = (unsupported, Bootstrap h docs)"
    using assms by (simp add: runPreChecks_unsupported Bootstrap_def)
  moreover have "\<not> result unsupported"
    by (simp add: unsupported_def Message_def)
  ultimately show ?thesis
    by (simp add: startLocal_rejects) (simp add: Bootstrap_def)
qed

lemma startLocal_missing:
  assumes "map_of daemonMap (platform h) = Some table"
    and "(case map_of table (arch h) of Some q \<Rightarrow> Some q | None \<Rightarrow> map_of table ''default'') = Some p"
    and "p \<notin> set (files h)"
  shows "startLocal (Bootstrap h docs) =
    (Bootstrap h docs)
      \<lparr>deferred := Rejected (not_found h),
       daemonFilePath := Some p,
       trace := [ExistsSync (Some p), ConsoleLog (Text (message (not_found h))),
                 Reject (not_found h), Broadcast ''daemon.bootstrapped'' (Some (not_found h))]\<rparr>"
proof -
  have "runPreChecks (Bootstrap h docs) =
      (not_found h, (Bootstrap h docs)\<lparr>daemonFilePath := Some p, trace := [ExistsSync (Some p)]\<rparr>)"
    using assms runPreChecks_supported [of "Bootstrap h docs" table p]
    by (simp add: Bootstrap_def)
  moreover have "\<not> result (not_found h)"
    by (simp add: not_found_def Message_def)
  ultimately show ?thesis
    by (simp add: startLocal_rejects) (simp add: Bootstrap_def)
qed

lemma idle_rejected:
  "idle ((Bootstrap h docs)\<lparr>deferred := d, trace := t\<rparr>)"
  "idle ((Bootstrap h docs)\<lparr>deferred := d, daemonFilePath := p, trace := t\<rparr>)"
  by (simp_all add: idle_def Bootstrap_def)

text \<open>
  C5. On an operating system that \<open>daemonMap\<close> has no entry for, \<open>runPreChecks\<close> answers
  \<open>{result: false, code: 1}\<close> without resolving a path or asking the file system, the
  deferred is rejected with that message, and whatever the runtime delivers afterwards
  the daemon is never spawned and the settings collection is neither asked nor changed:
  the trace holds the log line, the rejection and the broadcast, and nothing else.
\<close>

theorem unsupported_platform_fails_preflight:
  assumes "map_of daemonMap (platform h) = None"
  shows "fst (runPreChecks (Bootstrap h docs)) = \<lparr>result = False, code = 1,
            message = ''This operating system does not support running the Reddcoin daemon.''\<rparr>
    \<and> (let st = run evs (startLocal (Bootstrap h docs)) in
         deferred st = Rejected (fst (runPreChecks (Bootstrap h docs)))
       \<and> trace st =
           [ConsoleLog (Text ''This operating system does not support running the Reddcoin daemon.''),
            Reject (fst (runPreChecks (Bootstrap h docs))),
            Broadcast ''daemon.bootstrapped'' (Some (fst (runPreChecks (Bootstrap h docs))))]
       \<and> daemon st = None \<and> daemonFilePath st = None
       \<and> dbSettings st = docs \<and> db_queue st = [])"
proof -
  have pre: "runPreChecks (Bootstrap h docs) = (unsupported, Bootstrap h docs)"
    using assms by (simp add: runPreChecks_unsupported Bootstrap_def)
  have "run evs (startLocal (Bootstrap h docs)) = startLocal (Bootstrap h docs)"
    by (simp add: startLocal_unsupported [OF assms] idle_run idle_rejected)
  then show ?thesis
    by (simp add: pre startLocal_unsupported [OF assms])
       (simp add: Bootstrap_def unsupported_def Message_def)
qed

theorem unsupported_platform_fails_preflight_witness:
  "map_of daemonMap (platform (example_host ''plan9'' ''x64'' Deferred [1234])) = None
   \<and> code (fst (runPreChecks (Bootstrap (example_host ''plan9'' ''x64'' Deferred [1234]) stale_record))) = 1
   \<and> dbSettings (run [DbTurn, Tick, StdoutData, WinClose]
        (startLocal (Bootstrap (example_host ''plan9'' ''x64'' Deferred [1234]) stale_record)))
       = stale_record
   \<and> daemon (run [DbTurn, Tick, StdoutData, WinClose]
        (startLocal (Bootstrap (example_host ''plan9'' ''x64'' Deferred [1234]) stale_record)))
       = None"
proof -
  have h: "map_of daemonMap (platform (example_host ''plan9'' ''x64'' Deferred [1234])) = None"
    by (simp add: example_host_def daemonMap_def)
  show ?thesis
    using h unsupported_platform_fails_preflight
              [OF h, of stale_record "[DbTurn, Tick, StdoutData, WinClose]"]
    by (simp add: Let_def)
qed

text \<open>
  C6. On a supported operating system whose resolved path is not on disk,
  \<open>runPreChecks\<close> answers \<open>{result: false, code: 2}\<close> with the platform and the
  architecture in its text, the deferred is rejected with it, the daemon is never
  spawned, and the settings collection is neither asked nor changed.
\<close>

theorem missing_executable_fails_preflight:
  assumes "map_of daemonMap (platform h) = Some table"
    and "(case map_of table (arch h) of Some q \<Rightarrow> Some q | None \<Rightarrow> map_of table ''default'') = Some p"
    and "p \<notin> set (files h)"
  shows "fst (runPreChecks (Bootstrap h docs)) = \<lparr>result = False, code = 2,
            message = ''Cannot find the daemon for this operating system: '' @
                        platform h @ '' '' @ arch h\<rparr>
    \<and> (let st = run evs (startLocal (Bootstrap h docs)) in
         deferred st = Rejected (fst (runPreChecks (Bootstrap h docs)))
       \<and> trace st =
           [ExistsSync (Some p),
            ConsoleLog (Text (''Cannot find the daemon for this operating system: '' @
                                platform h @ '' '' @ arch h)),
            Reject (fst (runPreChecks (Bootstrap h docs))),
            Broadcast ''daemon.bootstrapped'' (Some (fst (runPreChecks (Bootstrap h docs))))]
       \<and> daemon st = None
       \<and> dbSettings st = docs \<and> db_queue st = [])"
proof -
  have pre: "runPreChecks (Bootstrap h docs) =
      (not_found h, (Bootstrap h docs)\<lparr>daemonFilePath := Some p, trace := [ExistsSync (Some p)]\<rparr>)"
    using assms runPreChecks_supported [of "Bootstrap h docs" table p]
    by (simp add: Bootstrap_def)
  have "run evs (startLocal (Bootstrap h docs)) = startLocal (Bootstrap h docs)"
    by (simp add: startLocal_missing [OF assms] idle_run idle_rejected)
  then show ?thesis
    by (simp add: pre startLocal_missing [OF assms])
       (simp add: Bootstrap_def not_found_def Message_def)
qed

theorem missing_executable_fails_preflight_witness:
  "map_of daemonMap (platform (example_host ''linux'' ''x32'' Immediate [])) =
     Some [(''x32'', ''daemons/reddcoind-linux32''), (''x64'', ''daemons/reddcoind-linux64''),
           (''default'', ''daemons/reddcoind-linux32'')]
   \<and> ''daemons/reddcoind-linux32'' \<notin> set (files (example_host ''linux'' ''x32'' Immediate []))
   \<and> fst (runPreChecks (Bootstrap (example_host ''linux'' ''x32'' Immediate []) stale_record)) =
       \<lparr>result = False, code = 2,
        message = ''Cannot find the daemon for this operating system: linux x32''\<rparr>
   \<and> dbSettings (run [DbTurn, Tick, WinClose]
        (startLocal (Bootstrap (example_host ''linux'' ''x32'' Immediate []) stale_record)))
       = stale_record"
proof -
  let ?h = "example_host ''linux'' ''x32'' Immediate []"
  let ?t = "[(''x32'', ''daemons/reddcoind-linux32''), (''x64'', ''daemons/reddcoind-linux64''),
           (''default'', ''daemons/reddcoind-linux32'')]"
  have a: "map_of daemonMap (platform ?h) = Some ?t"
    by (simp add: example_host_def daemonMap_def)
  have b: "(case map_of ?t (arch ?h) of Some q \<Rightarrow> Some q | None \<Rightarrow> map_of ?t ''default'')
            = Some ''daemons/reddcoind-linux32''"
    by (simp add: example_host_def)
  have c: "''daemons/reddcoind-linux32'' \<notin> set (files ?h)"
    by (simp add: example_host_def)
  have d: "platform ?h = ''linux''" "arch ?h = ''x32''"
    by (simp_all add: example_host_def)
  show ?thesis
    using a c missing_executable_fails_preflight [OF a b c, of stale_record "[DbTurn, Tick, WinClose]"]
    by (simp add: Let_def d)
qed

subsection \<open>Path resolution\<close>

text \<open>
  C7. For an operating system that \<open>daemonMap\<close> has a table for, and any architecture,
  \<open>initializeFilePath\<close> sets the path to the table's entry for the architecture when
  there is one and to the table's \<open>default\<close> entry otherwise; a path is always set, the
  platform check passes and \<open>runPreChecks\<close> never answers the code of an unsupported
  platform.
\<close>

theorem initializeFilePath_resolves:
  assumes "map_of daemonMap (platform (os st)) = Some table"
  shows "daemonFilePath (initializeFilePath st) =
           (case map_of table (arch (os st)) of
              Some p \<Rightarrow> Some p
            | None \<Rightarrow> map_of table ''default'')
       \<and> daemonFilePath (initializeFilePath st) \<noteq> None
       \<and> hasValidDaemon st
       \<and> code (fst (runPreChecks st)) \<noteq> 1"
  using assms supported_default [OF assms]
  by (auto simp: initializeFilePath_supported hasValidDaemon_def runPreChecks_def
        Message_def Let_def split: option.splits)

theorem initializeFilePath_resolves_witness:
  "map_of daemonMap
     (platform (os (Bootstrap (example_host ''win32'' ''x64'' Immediate []) []))) =
     Some [(''x32'', ''daemons/reddcoind-win32''), (''default'', ''daemons/reddcoind-win32'')]
   \<and> daemonFilePath (initializeFilePath (Bootstrap (example_host ''win32'' ''x64'' Immediate []) []))
       = Some ''daemons/reddcoind-win32''"
proof -
  let ?st = "Bootstrap (example_host ''win32'' ''x64'' Immediate []) []"
  let ?t = "[(''x32'', ''daemons/reddcoind-win32''), (''default'', ''daemons/reddcoind-win32'')]"
  have a: "map_of daemonMap (platform (os ?st)) = Some ?t"
    by (simp add: Bootstrap_def example_host_def daemonMap_def)
  have b: "arch (os ?st) = ''x64''"
    by (simp add: Bootstrap_def example_host_def)
  show ?thesis
    using a initializeFilePath_resolves [OF a]
    by (simp add: b)
qed

text \<open>
  C10. In \<open>daemonMap\<close> the \<open>darwin\<close> table maps \<open>x32\<close> and \<open>x64\<close> to
  \<open>daemons/reddcoind-mac32\<close> and \<open>default\<close> to \<open>daemons/reddcoind-mac-32\<close>, so on
  \<open>darwin\<close> any other architecture resolves to a path that differs from the path of
  both listed architectures.
\<close>

theorem darwin_default_path_differs:
  assumes "platform h = ''darwin''" and "arch h \<noteq> ''x32''" and "arch h \<noteq> ''x64''"
  shows "map_of daemonMap ''darwin'' =
           Some [(''x32'', ''daemons/reddcoind-mac32''), (''x64'', ''daemons/reddcoind-mac32''),
                 (''default'', ''daemons/reddcoind-mac-32'')]
       \<and> daemonFilePath (initializeFilePath (Bootstrap h docs)) =
           Some ''daemons/reddcoind-mac-32''
       \<and> daemonFilePath (initializeFilePath (Bootstrap (h\<lparr>arch := ''x32''\<rparr>) docs)) =
           Some ''daemons/reddcoind-mac32''
       \<and> daemonFilePath (initializeFilePath (Bootstrap (h\<lparr>arch := ''x64''\<rparr>) docs)) =
           Some ''daemons/reddcoind-mac32''
       \<and> daemonFilePath (initializeFilePath (Bootstrap h docs)) \<noteq>
           daemonFilePath (initializeFilePath (Bootstrap (h\<lparr>arch := ''x32''\<rparr>) docs))
       \<and> daemonFilePath (initializeFilePath (Bootstrap h docs)) \<noteq>
           daemonFilePath (initializeFilePath (Bootstrap (h\<lparr>arch := ''x64''\<rparr>) docs))"
  using assms
  by (simp add: initializeFilePath_def daemonMap_def Bootstrap_def)

theorem darwin_default_path_differs_witness:
  "platform (example_host ''darwin'' ''arm64'' Immediate []) = ''darwin''
   \<and> arch (example_host ''darwin'' ''arm64'' Immediate []) \<noteq> ''x32''
   \<and> arch (example_host ''darwin'' ''arm64'' Immediate []) \<noteq> ''x64''
   \<and> daemonFilePath (initializeFilePath (Bootstrap (example_host ''darwin'' ''arm64'' Immediate []) []))
       = Some ''daemons/reddcoind-mac-32''"
proof -
  let ?h = "example_host ''darwin'' ''arm64'' Immediate []"
  have a: "platform ?h = ''darwin''" and b: "arch ?h \<noteq> ''x32''" and c: "arch ?h \<noteq> ''x64''"
    by (simp_all add: example_host_def)
  show ?thesis
    using a b c darwin_default_path_differs [OF a b c, of "[]"]
    by simp
qed

subsection \<open>Reaping the process of an earlier run\<close>

text \<open>
  With callbacks run inside the call, the recorded process is signalled and its record
  removed before the new process is spawned, and the collection ends with one record,
  of the new pid.
\<close>

lemma immediate_reaps_before_spawn:
  "trace (startLocal (Bootstrap (example_host ''linux'' ''x64'' Immediate [1234]) stale_record)) =
     [ExistsSync (Some ''daemons/reddcoind-linux64''),
      Exec ''chmod 777 daemons/reddcoind-linux64'',
      DbCall (FindOne ''daemon'' (KillExistingPidFound False)),
      ProcessKill 1234,
      DbCall (Remove ''daemon''),
      Spawn (Some ''daemons/reddcoind-linux64'') daemon_args,
      DbCall (FindOne ''daemon'' (SaveDaemonPidFound False)),
      DbCall (Insert ''daemon'' 4321 False),
      SetTimeout 1500, SetInterval 15000]
   \<and> dbSettings (startLocal (Bootstrap (example_host ''linux'' ''x64'' Immediate [1234]) stale_record)) =
     [\<lparr>doc_id = 1, doc_type = ''daemon'', pid = 4321\<rparr>]"
  by (simp add: method_defs)

text \<open>
  C1. The claim: whenever a record exists at startup its pid is signalled and the
  record is removed, also when the signal fails. At a record of pid 1234 with no such
  process running, \<open>process.kill\<close> throws, the \<open>catch\<close> branch only logs, and the
  record is still in the collection once \<open>killExistingPid\<close> is done, with no removal
  requested; so it is under both ways of running callbacks.
\<close>

theorem killExistingPid_keeps_record_of_dead_pid:
  "(let st = killExistingPid False
               (Bootstrap (example_host ''linux'' ''x64'' Immediate []) stale_record) in
      trace st = [DbCall (FindOne ''daemon'' (KillExistingPidFound False)),
                  ProcessKill 1234, ConsoleLog (Error 1234)]
    \<and> dbSettings st = stale_record \<and> db_queue st = [])
   \<and> (let st = run [DbTurn] (killExistingPid False
               (Bootstrap (example_host ''linux'' ''x64'' Deferred []) stale_record)) in
      trace st = [DbCall (FindOne ''daemon'' (KillExistingPidFound False)),
                  ProcessKill 1234, ConsoleLog (Error 1234)]
    \<and> dbSettings st = stale_record \<and> db_queue st = [])"
  by (simp add: method_defs)

text \<open>
  C2. The claim: the lookup of the earlier record and the signal to its process are
  over before the new process is spawned. \<open>startLocal\<close> calls \<open>killExistingPid\<close>
  without a callback and goes on to \<open>spawnDaemon\<close>; when the collection calls back
  on a later turn, the process is spawned while the lookup is still queued, and process
  1234 is signalled only afterwards.
\<close>

theorem deferred_spawns_before_reaping:
  "(let st = startLocal (Bootstrap (example_host ''linux'' ''x64'' Deferred [1234]) stale_record) in
      trace st =
        [ExistsSync (Some ''daemons/reddcoind-linux64''),
         Exec ''chmod 777 daemons/reddcoind-linux64'',
         DbCall (FindOne ''daemon'' (KillExistingPidFound False)),
         Spawn (Some ''daemons/reddcoind-linux64'') daemon_args,
         DbCall (FindOne ''daemon'' (SaveDaemonPidFound False)),
         SetTimeout 1500, SetInterval 15000]
    \<and> db_queue st = [FindOne ''daemon'' (KillExistingPidFound False),
                      FindOne ''daemon'' (SaveDaemonPidFound False)])
   \<and> trace (run [DbTurn]
        (startLocal (Bootstrap (example_host ''linux'' ''x64'' Deferred [1234]) stale_record))) =
        [ExistsSync (Some ''daemons/reddcoind-linux64''),
         Exec ''chmod 777 daemons/reddcoind-linux64'',
         DbCall (FindOne ''daemon'' (KillExistingPidFound False)),
         Spawn (Some ''daemons/reddcoind-linux64'') daemon_args,
         DbCall (FindOne ''daemon'' (SaveDaemonPidFound False)),
         SetTimeout 1500, SetInterval 15000,
         ProcessKill 1234,
         DbCall (Remove ''daemon'')]"
  by (simp add: method_defs)

subsection \<open>Saving the pid\<close>

text \<open>
  C8. The claim: after every successful spawn the collection holds exactly one
  \<open>daemon\<close> record, of the new pid. With callbacks on later turns and the earlier
  process still running, the requests are served in the order lookup of
  \<open>killExistingPid\<close>, lookup of \<open>saveDaemonPid\<close> (which finds the old record and asks to
  update it), removal, update: the removal deletes the record, the update matches
  nothing, and the collection ends with no record of the spawned process 4321.
\<close>

theorem deferred_startup_loses_record:
  "(let st = run [DbTurn, DbTurn, DbTurn, DbTurn]
        (startLocal (Bootstrap (example_host ''linux'' ''x64'' Deferred [1234]) stale_record)) in
      daemon st = Some 4321 \<and> dbSettings st = [] \<and> db_queue st = []
    \<and> filter (\<lambda>e. case e of DbCall r \<Rightarrow> True | _ \<Rightarrow> False) (trace st) =
        [DbCall (FindOne ''daemon'' (KillExistingPidFound False)),
         DbCall (FindOne ''daemon'' (SaveDaemonPidFound False)),
         DbCall (Remove ''daemon''),
         DbCall (Update 7 \<lparr>doc_id = 7, doc_type = ''daemon'', pid = 4321\<rparr> False)])"
  by (simp add: method_defs)

subsection \<open>After a start that passed the pre-checks\<close>

lemma control_emit:
  "\<not> is_settlement e \<Longrightarrow> \<not> is_block e \<Longrightarrow> control (emit_effect e st) = control st"
  by (simp add: control_def emit_effect_def)

lemma control_debug: "control (debug d st) = control st"
  by (simp add: debug_def control_emit)

lemma control_callback: "control (optional_callback g (Callback b) st) = control st"
  by (simp add: optional_callback_def control_emit)

lemma control_fields:
  "control (st\<lparr>db_queue := q\<rparr>) = control st"
  "control (st\<lparr>dbSettings := ds\<rparr>) = control st"
  "control (st\<lparr>daemon := d\<rparr>) = control st"
  "control (st\<lparr>kill_callbacks := c\<rparr>) = control st"
  "control (st\<lparr>daemonFilePath := p\<rparr>) = control st"
  by (simp_all add: control_def)

lemma control_serve_write: "control (serve_write r st) = control st"
  by (cases r) (simp_all add: control_callback control_fields)

lemma control_submit_write: "control (submit_write r st) = control st"
  by (simp add: submit_write_def Let_def control_serve_write control_emit control_fields
        split: dispatch.splits)

lemma control_kill_found: "control (killExistingPid_found g found st) = control st"
  by (simp add: killExistingPid_found_def Let_def control_callback control_submit_write
        control_debug control_emit split: option.splits)

lemma control_save_found: "control (saveDaemonPid_found g found st) = control st"
  by (simp add: saveDaemonPid_found_def control_submit_write control_emit split: option.splits)

lemma control_serve: "control (serve r st) = control st"
proof (cases r)
  case (FindOne t k)
  then show ?thesis
    by (cases k) (simp_all add: control_kill_found control_save_found)
qed (simp_all add: control_serve_write control_callback control_fields)

lemma control_findOne: "control (findOne t k st) = control st"
  by (simp add: findOne_def Let_def control_serve control_emit control_fields
        split: dispatch.splits)

lemma started_control:
  "control st' = control st \<Longrightarrow> started n k st' = started n k st"
  by (simp add: control_def started_def)

lemma runPreChecks_control: "control (snd (runPreChecks st)) = control st"
  by (simp add: runPreChecks_def Let_def initializeFilePath_def control_emit control_fields
        split: option.splits)

lemma startLocal_accepts:
  "result (fst (runPreChecks st)) \<Longrightarrow>
   startLocal st =
     set_timer 15000 (Some 15000) BlockNotification
       (emit_effect (SetInterval 15000)
         (set_timer 1500 None DaemonReady
           (emit_effect (SetTimeout 1500)
             (setupDaemonListeners
               (spawnDaemon
                 (killExistingPid False
                   (runOsSpecificTasks (snd (runPreChecks st)))))))))"
  by (simp add: startLocal_def split_beta Let_def)

lemma daemon_serve_write: "daemon (serve_write r st) = daemon st"
  by (cases r) (simp_all add: optional_callback_def emit_effect_def)

lemma daemon_submit_write: "daemon (submit_write r st) = daemon st"
  by (simp add: submit_write_def Let_def daemon_serve_write emit_effect_def split: dispatch.splits)

lemma daemon_findOne: "daemon st = Some p \<Longrightarrow> daemon (findOne t k st) = Some p"
  by (cases k)
     (simp_all add: findOne_def Let_def emit_effect_def killExistingPid_found_def
        saveDaemonPid_found_def optional_callback_def debug_def daemon_submit_write
        split: dispatch.splits option.splits)

lemma daemon_spawnDaemon: "daemon (spawnDaemon st) = Some (child_pid (os st))"
  by (simp add: spawnDaemon_def saveDaemonPid_def daemon_findOne emit_effect_def)

lemma control_spawned:
  "control (spawnDaemon (killExistingPid False (runOsSpecificTasks st))) = control st"
  by (simp add: spawnDaemon_def saveDaemonPid_def killExistingPid_def runOsSpecificTasks_def
        control_findOne control_fields control_emit)

lemma startLocal_started:
  assumes "result (fst (runPreChecks (Bootstrap h docs)))"
  shows "started 0 0 (startLocal (Bootstrap h docs))"
proof -
  let ?st = "spawnDaemon (killExistingPid False
               (runOsSpecificTasks (snd (runPreChecks (Bootstrap h docs)))))"
  have c: "control ?st = control (Bootstrap h docs)"
    by (simp add: control_spawned runPreChecks_control)
  have d: "daemon ?st \<noteq> None"
    by (simp add: daemon_spawnDaemon)
  have b: "control (Bootstrap h docs) = ([], True, False, False, Pending, [], [])"
    by (simp add: control_def Bootstrap_def)
  from c b have f: "timers ?st = []" "debugEnabled ?st" "deferred ?st = Pending"
    "filter is_settlement (trace ?st) = []" "filter is_block (trace ?st) = []"
    by (simp_all add: control_def)
  from d obtain p where p: "daemon ?st = Some p" by auto
  show ?thesis
    unfolding startLocal_accepts [OF assms]
    by (simp add: started_def timers_after_def set_timer_def emit_effect_def
          setupDaemonListeners_def p f)
qed

lemma step_control:
  "e \<noteq> Tick \<Longrightarrow> e \<noteq> StdoutData \<Longrightarrow> control (step e st) = control st"
  by (cases e)
     (simp_all add: control_serve control_fields control_debug control_emit split: list.splits)

lemma step_WinClose:
  "on_win_close st \<Longrightarrow>
   trace (step WinClose st) = trace st @ [DaemonKill ''SIGTERM'', WindowClose True]"
  by (simp add: emit_effect_def)

lemma step_StdoutData:
  "on_stdout_data st \<Longrightarrow> debugEnabled st \<Longrightarrow>
   step StdoutData st =
     st\<lparr>trace := trace st @
          [ConsoleLog (Text (''Received daemon data from 'stdout'' @ [CHR 0x27])),
           Emit ''daemon.notifications.block'']\<rparr>"
  by (simp add: emit_effect_def debug_def)

lemma fired_after:
  "filter (\<lambda>t. remaining t = 0) (map count_down (timers_after n)) =
     (if n = 1499 then [\<lparr>remaining = 0, repeat = None, cb = DaemonReady\<rparr>] else []) @
     (if Suc n mod 15000 = 0
      then [\<lparr>remaining = 0, repeat = Some 15000, cb = BlockNotification\<rparr>] else [])"
proof -
  have m: "n mod 15000 < 15000" by simp
  have s: "Suc n mod 15000 = (if n mod 15000 = 14999 then 0 else Suc (n mod 15000))"
    by (simp add: mod_Suc)
  show ?thesis
    using m unfolding s by (auto simp: timers_after_def count_down_def)
qed

lemma rearm_after: "rearm (map count_down (timers_after n)) = timers_after (Suc n)"
proof -
  have m: "n mod 15000 < 15000" by simp
  have s: "Suc n mod 15000 = (if n mod 15000 = 14999 then 0 else Suc (n mod 15000))"
    by (simp add: mod_Suc)
  show ?thesis
    using m unfolding timers_after_def s by (auto simp: rearm_def count_down_def)
qed

lemma tick_started:
  assumes "started n k st"
  shows "started (Suc n) k (tick st)"
    and "trace (tick st) = trace st @
           (if n = 1499 then [Broadcast ''daemon.bootstrapped'' (Some ready), Resolve ready,
                              ConsoleLog (Msg ready)] else []) @
           (if Suc n mod 15000 = 0 then [Broadcast ''daemon.notifications.block'' None] else [])"
proof -
  have t: "timers st = timers_after n" and dbg: "debugEnabled st"
    and df: "deferred st = (if n < 1500 then Pending else Resolved ready)"
    using assms by (simp_all add: started_def)
  have tk: "tick st =
      fold (\<lambda>t. run_timer (cb t))
        ((if n = 1499 then [\<lparr>remaining = 0, repeat = None, cb = DaemonReady\<rparr>] else []) @
         (if Suc n mod 15000 = 0
          then [\<lparr>remaining = 0, repeat = Some 15000, cb = BlockNotification\<rparr>] else []))
        (st\<lparr>timers := timers_after (Suc n)\<rparr>)"
    by (simp add: tick_def Let_def t fired_after rearm_after)
  show "trace (tick st) = trace st @
           (if n = 1499 then [Broadcast ''daemon.bootstrapped'' (Some ready), Resolve ready,
                              ConsoleLog (Msg ready)] else []) @
           (if Suc n mod 15000 = 0 then [Broadcast ''daemon.notifications.block'' None] else [])"
    unfolding tk using dbg
    by (simp add: emit_effect_def resolve_def debug_def ready_def Let_def)
  show "started (Suc n) k (tick st)"
    unfolding tk using assms
    by (auto simp add: started_def emit_effect_def resolve_def debug_def ready_def Let_def
          div_Suc)
qed

lemma run_snoc: "run (evs @ [e]) st = step e (run evs st)"
  by (simp add: run_def)

lemma count_list_replicate: "count_list (replicate n x) y = (if x = y then n else 0)"
  by (induction n) auto

lemma step_started:
  assumes "started n k st"
  shows "started (n + (if e = Tick then 1 else 0)) (k + (if e = StdoutData then 1 else 0))
           (step e st)"
proof (cases "e = Tick \<or> e = StdoutData")
  case False
  then have "control (step e st) = control st"
    by (simp add: step_control)
  from started_control [OF this] show ?thesis
    using assms False by simp
next
  case True
  then show ?thesis
  proof
    assume "e = Tick"
    then show ?thesis using tick_started(1) [OF assms] by simp
  next
    assume e: "e = StdoutData"
    have "on_stdout_data st" and "debugEnabled st"
      using assms by (simp_all add: started_def)
    then have "step StdoutData st =
        st\<lparr>trace := trace st @
          [ConsoleLog (Text (''Received daemon data from 'stdout'' @ [CHR 0x27])),
           Emit ''daemon.notifications.block'']\<rparr>"
      by (rule step_StdoutData)
    then show ?thesis
      using assms unfolding e by (simp add: started_def del: step.simps)
  qed
qed

lemma run_started:
  "started n k st \<Longrightarrow>
   started (n + count_list evs Tick) (k + count_list evs StdoutData) (run evs st)"
proof (induction evs arbitrary: n k st)
  case Nil
  then show ?case by (simp add: run_def)
next
  case (Cons e evs)
  have "started (n + (if e = Tick then 1 else 0)) (k + (if e = StdoutData then 1 else 0))
          (step e st)"
    by (rule step_started [OF Cons.prems])
  note ih = Cons.IH [OF this]
  have r: "run (e # evs) st = run evs (step e st)"
    by (simp add: run_def)
  have t: "n + count_list (e # evs) Tick = n + (if e = Tick then 1 else 0) + count_list evs Tick"
    by simp
  have d: "k + count_list (e # evs) StdoutData =
             k + (if e = StdoutData then 1 else 0) + count_list evs StdoutData"
    by simp
  show ?case
    unfolding r t d by (rule ih)
qed

lemma startLocal_run_started:
  assumes "result (fst (runPreChecks (Bootstrap h docs)))"
  shows "started (count_list evs Tick) (count_list evs StdoutData)
           (run evs (startLocal (Bootstrap h docs)))"
  using run_started [OF startLocal_started [OF assms], of evs] by simp

lemma startLocal_failed:
  assumes "\<not> result (fst (runPreChecks (Bootstrap h docs)))"
  shows "run evs (startLocal (Bootstrap h docs)) = startLocal (Bootstrap h docs)"
    and "deferred (startLocal (Bootstrap h docs)) = Rejected (fst (runPreChecks (Bootstrap h docs)))"
    and "filter is_settlement (trace (startLocal (Bootstrap h docs))) =
           [Reject (fst (runPreChecks (Bootstrap h docs)))]"
proof -
  have os: "os (Bootstrap h docs) = h" "trace (Bootstrap h docs) = []"
    by (simp_all add: Bootstrap_def)
  have "run evs (startLocal (Bootstrap h docs)) = startLocal (Bootstrap h docs)
      \<and> deferred (startLocal (Bootstrap h docs)) = Rejected (fst (runPreChecks (Bootstrap h docs)))
      \<and> filter is_settlement (trace (startLocal (Bootstrap h docs))) =
           [Reject (fst (runPreChecks (Bootstrap h docs)))]"
  proof (cases "map_of daemonMap (platform h)")
    case None
    have pre: "runPreChecks (Bootstrap h docs) = (unsupported, Bootstrap h docs)"
      using None by (simp add: runPreChecks_unsupported os)
    show ?thesis
      by (simp add: startLocal_unsupported [OF None] idle_run idle_rejected pre)
  next
    case (Some table)
    from supported_default [OF Some] obtain y where "map_of table ''default'' = Some y"
      by auto
    then have "\<exists>p. (case map_of table (arch h) of Some q \<Rightarrow> Some q
                     | None \<Rightarrow> map_of table ''default'') = Some p"
      by (cases "map_of table (arch h)") simp_all
    then obtain p where
      p: "(case map_of table (arch h) of Some q \<Rightarrow> Some q | None \<Rightarrow> map_of table ''default'') = Some p"
      by blast
    have pre: "runPreChecks (Bootstrap h docs) =
       (if p \<in> set (files h) then Message True 0 ''Pre-checks complete'' else not_found h,
        (Bootstrap h docs)\<lparr>daemonFilePath := Some p, trace := [ExistsSync (Some p)]\<rparr>)"
      using runPreChecks_supported [of "Bootstrap h docs" table p] Some p by (simp add: os)
    have miss: "p \<notin> set (files h)"
      using assms unfolding pre by (auto simp: Message_def split: if_splits)
    show ?thesis
      by (simp add: startLocal_missing [OF Some p miss] idle_run idle_rejected pre miss)
  qed
  then show "run evs (startLocal (Bootstrap h docs)) = startLocal (Bootstrap h docs)"
    and "deferred (startLocal (Bootstrap h docs)) = Rejected (fst (runPreChecks (Bootstrap h docs)))"
    and "filter is_settlement (trace (startLocal (Bootstrap h docs))) =
           [Reject (fst (runPreChecks (Bootstrap h docs)))]"
    by simp_all
qed

lemma example_preflight:
  "result (fst (runPreChecks (Bootstrap (example_host ''linux'' ''x64'' d live) docs)))"
  by (simp add: runPreChecks_def hasValidDaemon_def initializeFilePath_def existsSync_def
        emit_effect_def Bootstrap_def example_host_def daemonMap_def Message_def Let_def)

subsection \<open>Closing the window\<close>

text \<open>
  C3, as amended. After a start that passed the pre-checks, whenever the window's
  \<open>close\<close> event arrives the handler sends \<open>SIGTERM\<close> to the daemon and then closes
  the window by force, in the same call: the two effects are adjacent in the trace and
  nothing that tells of the daemon's end lies between them.
\<close>

theorem window_close_signals_then_closes:
  assumes "result (fst (runPreChecks (Bootstrap h docs)))"
  shows "trace (run (evs @ [WinClose]) (startLocal (Bootstrap h docs))) =
         trace (run evs (startLocal (Bootstrap h docs))) @
           [DaemonKill ''SIGTERM'', WindowClose True]"
proof -
  have "on_win_close (run evs (startLocal (Bootstrap h docs)))"
    using startLocal_run_started [OF assms, of evs] by (simp add: started_def)
  then show ?thesis
    by (simp add: run_snoc step_WinClose del: step.simps)
qed

theorem window_close_signals_then_closes_witness:
  "result (fst (runPreChecks (Bootstrap (example_host ''linux'' ''x64'' Immediate []) [])))
   \<and> trace (run ([StdoutData] @ [WinClose])
        (startLocal (Bootstrap (example_host ''linux'' ''x64'' Immediate []) []))) =
     trace (run [StdoutData]
        (startLocal (Bootstrap (example_host ''linux'' ''x64'' Immediate []) []))) @
       [DaemonKill ''SIGTERM'', WindowClose True]"
  using example_preflight [of Immediate "[]" "[]"]
    window_close_signals_then_closes
      [OF example_preflight [of Immediate "[]" "[]"], of "[StdoutData]"]
  by simp

text \<open>
  As stated the claim fails: with the window closed right after the start, the window
  is closed although no log line of the daemon's end has been written.
\<close>

theorem window_closes_without_waiting:
  "\<not> closes_only_after_exit False
       (trace (run [WinClose]
          (startLocal (Bootstrap (example_host ''linux'' ''x64'' Immediate []) []))))"
  by (simp add: method_defs)

subsection \<open>The readiness promise\<close>

text \<open>
  C4. In every run of a session, \<open>startLocal\<close> followed by whatever the runtime
  delivers, the deferred is settled by exactly one call: \<open>reject\<close> with the message of
  \<open>runPreChecks\<close> when the pre-checks fail, and otherwise \<open>resolve\<close> with
  \<open>{result: true, code: 0, 'Daemon Ready'}\<close> once 1500 milliseconds have passed, no
  call before that and none after. \<open>getPromise\<close> answers the one deferred of the
  object, and once that is settled it answers the same outcome for ever.
\<close>

theorem readiness_settles_once:
  "(let m = fst (runPreChecks (Bootstrap h docs));
        st = run evs (startLocal (Bootstrap h docs)) in
      getPromise st = deferred st \<and>
      (if \<not> result m then
         deferred st = Rejected m \<and> filter is_settlement (trace st) = [Reject m]
       else if count_list evs Tick < 1500 then
         deferred st = Pending \<and> filter is_settlement (trace st) = []
       else
         deferred st = Resolved (Message True 0 ''Daemon Ready'') \<and>
         filter is_settlement (trace st) = [Resolve (Message True 0 ''Daemon Ready'')]))
   \<and> (getPromise (run evs (startLocal (Bootstrap h docs))) \<noteq> Pending \<longrightarrow>
        getPromise (run (evs @ evs') (startLocal (Bootstrap h docs))) =
        getPromise (run evs (startLocal (Bootstrap h docs))))"
proof (cases "result (fst (runPreChecks (Bootstrap h docs)))")
  case False
  show ?thesis
    using False by (simp add: startLocal_failed [OF False] getPromise_def Let_def)
next
  case True
  have a: "started (count_list evs Tick) (count_list evs StdoutData)
             (run evs (startLocal (Bootstrap h docs)))"
    by (rule startLocal_run_started [OF True])
  have b: "started (count_list (evs @ evs') Tick) (count_list (evs @ evs') StdoutData)
             (run (evs @ evs') (startLocal (Bootstrap h docs)))"
    by (rule startLocal_run_started [OF True])
  have d1: "deferred (run evs (startLocal (Bootstrap h docs))) =
              (if count_list evs Tick < 1500 then Pending else Resolved ready)"
    using a by (simp add: started_def)
  have f1: "filter is_settlement (trace (run evs (startLocal (Bootstrap h docs)))) =
              (if count_list evs Tick < 1500 then [] else [Resolve ready])"
    using a by (simp add: started_def)
  have d2: "deferred (run (evs @ evs') (startLocal (Bootstrap h docs))) =
              (if count_list (evs @ evs') Tick < 1500 then Pending else Resolved ready)"
    using b by (simp add: started_def)
  show ?thesis
    using True by (simp add: d1 f1 d2 getPromise_def Let_def ready_def)
qed

theorem readiness_settles_once_witness:
  "getPromise (run (replicate 1500 Tick)
      (startLocal (Bootstrap (example_host ''linux'' ''x64'' Deferred []) []))) \<noteq> Pending
   \<and> getPromise (run (replicate 1500 Tick @ [StdoutData, Tick, WinClose])
      (startLocal (Bootstrap (example_host ''linux'' ''x64'' Deferred []) []))) =
     Resolved (Message True 0 ''Daemon Ready'')"
  using readiness_settles_once
          [of "example_host ''linux'' ''x64'' Deferred []" "[]" "replicate 1500 Tick"
              "[StdoutData, Tick, WinClose]"]
    example_preflight [of Deferred "[]" "[]"]
  by (simp add: Let_def count_list_replicate)

subsection \<open>The activity event\<close>

text \<open>
  C9. After a start that passed the pre-checks, \<open>daemon.notifications.block\<close> has been
  published once for every full 15000 milliseconds that have passed and once for every
  \<open>data\<close> event of the daemon's stdout, whatever else happened: a \<open>data\<close> event
  publishes it in its own handler, and the millisecond that completes a round of 15000
  publishes it whether or not the daemon wrote anything.
\<close>

theorem activity_event_published:
  assumes "result (fst (runPreChecks (Bootstrap h docs)))"
  shows "length (filter is_block (trace (run evs (startLocal (Bootstrap h docs))))) =
           count_list evs Tick div 15000 + count_list evs StdoutData
       \<and> trace (run (evs @ [StdoutData]) (startLocal (Bootstrap h docs))) =
           trace (run evs (startLocal (Bootstrap h docs))) @
             [ConsoleLog (Text (''Received daemon data from 'stdout'' @ [CHR 0x27])),
              Emit ''daemon.notifications.block'']
       \<and> trace (run (evs @ [Tick]) (startLocal (Bootstrap h docs))) =
           trace (run evs (startLocal (Bootstrap h docs))) @
             (if count_list evs Tick = 1499
              then [Broadcast ''daemon.bootstrapped'' (Some (Message True 0 ''Daemon Ready'')),
                    Resolve (Message True 0 ''Daemon Ready''),
                    ConsoleLog (Msg (Message True 0 ''Daemon Ready''))]
              else []) @
             (if Suc (count_list evs Tick) mod 15000 = 0
              then [Broadcast ''daemon.notifications.block'' None] else [])"
proof -
  have a: "started (count_list evs Tick) (count_list evs StdoutData)
             (run evs (startLocal (Bootstrap h docs)))"
    by (rule startLocal_run_started [OF assms])
  have s: "on_stdout_data (run evs (startLocal (Bootstrap h docs)))"
    "debugEnabled (run evs (startLocal (Bootstrap h docs)))"
    using a by (simp_all add: started_def)
  have c: "length (filter is_block (trace (run evs (startLocal (Bootstrap h docs))))) =
           count_list evs Tick div 15000 + count_list evs StdoutData"
    using a by (simp add: started_def)
  have d: "trace (run (evs @ [StdoutData]) (startLocal (Bootstrap h docs))) =
           trace (run evs (startLocal (Bootstrap h docs))) @
             [ConsoleLog (Text (''Received daemon data from 'stdout'' @ [CHR 0x27])),
              Emit ''daemon.notifications.block'']"
    by (simp add: run_snoc step_StdoutData [OF s] del: step.simps)
  have e: "trace (run (evs @ [Tick]) (startLocal (Bootstrap h docs))) =
           trace (run evs (startLocal (Bootstrap h docs))) @
             (if count_list evs Tick = 1499
              then [Broadcast ''daemon.bootstrapped'' (Some (Message True 0 ''Daemon Ready'')),
                    Resolve (Message True 0 ''Daemon Ready''),
                    ConsoleLog (Msg (Message True 0 ''Daemon Ready''))]
              else []) @
             (if Suc (count_list evs Tick) mod 15000 = 0
              then [Broadcast ''daemon.notifications.block'' None] else [])"
    using tick_started(2) [OF a, unfolded ready_def] by (simp only: run_snoc step.simps)
  show ?thesis
    by (rule conjI [OF c conjI [OF d e]])
qed

theorem activity_event_published_witness:
  "result (fst (runPreChecks (Bootstrap (example_host ''linux'' ''x64'' Deferred []) [])))
   \<and> length (filter is_block (trace (run (replicate 30000 Tick @ [StdoutData])
        (startLocal (Bootstrap (example_host ''linux'' ''x64'' Deferred []) []))))) = 3
   \<and> trace (run (replicate 14999 Tick @ [Tick])
        (startLocal (Bootstrap (example_host ''linux'' ''x64'' Deferred []) []))) =
     trace (run (replicate 14999 Tick)
        (startLocal (Bootstrap (example_host ''linux'' ''x64'' Deferred []) []))) @
       [Broadcast ''daemon.notifications.block'' None]"
  using example_preflight [of Deferred "[]" "[]"]
    activity_event_published [OF example_preflight [of Deferred "[]" "[]"],
       of "replicate 30000 Tick @ [StdoutData]"]
    activity_event_published [OF example_preflight [of Deferred "[]" "[]"],
       of "replicate 14999 Tick"]
  by (simp add: count_list_replicate)

end
